theory Spec2Isabelle
  imports Main "HOL-Library.Char_ord"
begin

section \<open>Bytes and errors\<close>

text \<open>
  A Go \<^verbatim>\<open>[]byte\<close> and a Go \<^verbatim>\<open>string\<close> are both sequences of 8-bit bytes; HOL's
  \<^typ>\<open>char\<close> is an 8-bit byte, so both are modelled as \<^typ>\<open>string\<close>. Byte offsets are
  \<^verbatim>\<open>int64\<close> in the source; a buffer is shorter than \<open>2^63\<close> bytes, so no offset computed by
  the code wraps, and offsets are modelled as \<^typ>\<open>int\<close> (they do go below zero in one loop).
\<close>

definition comma :: char where "comma = CHR '',''"
definition colon :: char where "colon = CHR '':''"
definition sqBracket :: char where "sqBracket = CHR '']''"
definition closingCurlyBracket :: char where "closingCurlyBracket = CHR ''}''"

text \<open>The error values that the \<^verbatim>\<open>encoding/json\<close> decoder hands to \<^verbatim>\<open>FindElement\<close>.\<close>

datatype error = EOF | ErrUnexpectedEOF | SyntaxError | UnmarshalTypeError

text \<open>
  The outcome of a decoder call: a Go panic raised inside the library, a returned error,
  or a result.
\<close>

datatype 'a dres = Panics | Fails error | Done 'a

text \<open>The outcome of a call of this package: a run-time panic, or the returned values.\<close>

datatype 'a outcome = Panic | Return 'a

definition isSpace :: "char \<Rightarrow> bool" where
  "isSpace c = (c = CHR '' '' \<or> c = CHR 0x09 \<or> c = CHR 0x0D \<or> c = CHR 0x0A)"

definition isDigit :: "char \<Rightarrow> bool" where
  "isDigit c = (CHR ''0'' \<le> c \<and> c \<le> CHR ''9'')"

definition isHex :: "char \<Rightarrow> bool" where
  "isHex c = (isDigit c \<or> CHR ''a'' \<le> c \<and> c \<le> CHR ''f'' \<or> CHR ''A'' \<le> c \<and> c \<le> CHR ''F'')"

section \<open>The scanner of \<^verbatim>\<open>encoding/json\<close>\<close>

text \<open>
  \<^verbatim>\<open>FindElement\<close> drives a \<^verbatim>\<open>json.Decoder\<close> of the Go standard library. The library is not
  part of the repository; its scanner (\<^verbatim>\<open>scanner.go\<close>) is transcribed here state by state,
  because the byte offsets that \<^verbatim>\<open>FindElement\<close> computes are the offsets at which this
  state machine stops. \<^verbatim>\<open>s.step\<close> is a function pointer in Go and a constructor here;
  \<^verbatim>\<open>s.err\<close> is non-nil exactly when \<^verbatim>\<open>s.step\<close> is \<^verbatim>\<open>stateError\<close>. The parse stack has its top
  first.
\<close>

datatype scan_code =
    scanContinue | scanBeginLiteral | scanBeginObject | scanObjectKey | scanObjectValue
  | scanEndObject | scanBeginArray | scanArrayValue | scanEndArray | scanSkipSpace
  | scanEnd | scanError

datatype parse_state = parseObjectKey | parseObjectValue | parseArrayValue

datatype step_fn =
    BeginValueOrEmpty | BeginValue | BeginStringOrEmpty | BeginString | EndValue | EndTop
  | InString | InStringEsc | InStringEscU | InStringEscU1 | InStringEscU12 | InStringEscU123
  | Neg | Num1 | Num0 | Dot | Dot0 | Exp | ESign | E0
  | LitT | LitTr | LitTru | LitF | LitFa | LitFal | LitFals | LitN | LitNu | LitNul
  | Error

record scanner =
  step :: step_fn
  parseState :: "parse_state list"
  endTop :: bool

named_theorems scan_defs \<open>the defining equations of the scanner's state functions\<close>

definition maxNestingDepth :: nat where [scan_defs]:
  "maxNestingDepth = 10000"

definition reset :: scanner where [scan_defs]:
  "reset = \<lparr>step = BeginValue, parseState = [], endTop = False\<rparr>"

definition scan_err :: "scanner \<Rightarrow> scan_code \<times> scanner" where [scan_defs]:
  "scan_err s = (scanError, s\<lparr>step := Error\<rparr>)"

definition continue :: "scanner \<Rightarrow> step_fn \<Rightarrow> scan_code \<times> scanner" where [scan_defs]:
  "continue s next = (scanContinue, s\<lparr>step := next\<rparr>)"

definition pushParseState :: "scanner \<Rightarrow> parse_state \<Rightarrow> scan_code \<Rightarrow> scan_code \<times> scanner" where [scan_defs]:
  "pushParseState s newParseState successState =
     (let s = s\<lparr>parseState := newParseState # parseState s\<rparr>
      in if length (parseState s) \<le> maxNestingDepth then (successState, s) else scan_err s)"

definition popParseState :: "scanner \<Rightarrow> scanner" where [scan_defs]:
  \<comment> \<open>only called with a non-empty stack\<close>
  "popParseState s =
     (let rest = tl (parseState s)
      in if rest = [] then s\<lparr>parseState := rest, step := EndTop, endTop := True\<rparr>
         else s\<lparr>parseState := rest, step := EndValue\<rparr>)"

definition stateEndTop :: "scanner \<Rightarrow> char \<Rightarrow> scan_code \<times> scanner" where [scan_defs]:
  \<comment> \<open>a non-space byte is complained about on the next call; the result is \<^verbatim>\<open>scanEnd\<close> either way\<close>
  "stateEndTop s c = (if \<not> isSpace c then (scanEnd, snd (scan_err s)) else (scanEnd, s))"

definition stateEndValue :: "scanner \<Rightarrow> char \<Rightarrow> scan_code \<times> scanner" where [scan_defs]:
  "stateEndValue s c =
     (case parseState s of
        [] \<Rightarrow> stateEndTop (s\<lparr>step := EndTop, endTop := True\<rparr>) c
      | ps # rest \<Rightarrow>
          if isSpace c then (scanSkipSpace, s\<lparr>step := EndValue\<rparr>)
          else (case ps of
                  parseObjectKey \<Rightarrow>
                    if c = CHR '':'' then (scanObjectKey, s\<lparr>parseState := parseObjectValue # rest, step := BeginValue\<rparr>)
                    else scan_err s
                | parseObjectValue \<Rightarrow>
                    if c = CHR '','' then (scanObjectValue, s\<lparr>parseState := parseObjectKey # rest, step := BeginString\<rparr>)
                    else if c = CHR ''}'' then (scanEndObject, popParseState s)
                    else scan_err s
                | parseArrayValue \<Rightarrow>
                    if c = CHR '','' then (scanArrayValue, s\<lparr>step := BeginValue\<rparr>)
                    else if c = CHR '']'' then (scanEndArray, popParseState s)
                    else scan_err s))"

definition stateBeginValue :: "scanner \<Rightarrow> char \<Rightarrow> scan_code \<times> scanner" where [scan_defs]:
  "stateBeginValue s c =
     (if isSpace c then (scanSkipSpace, s)
      else if c = CHR ''{'' then pushParseState (s\<lparr>step := BeginStringOrEmpty\<rparr>) parseObjectKey scanBeginObject
      else if c = CHR ''['' then pushParseState (s\<lparr>step := BeginValueOrEmpty\<rparr>) parseArrayValue scanBeginArray
      else if c = CHR 0x22 then (scanBeginLiteral, s\<lparr>step := InString\<rparr>)
      else if c = CHR ''-'' then (scanBeginLiteral, s\<lparr>step := Neg\<rparr>)
      else if c = CHR ''0'' then (scanBeginLiteral, s\<lparr>step := Num0\<rparr>)
      else if c = CHR ''t'' then (scanBeginLiteral, s\<lparr>step := LitT\<rparr>)
      else if c = CHR ''f'' then (scanBeginLiteral, s\<lparr>step := LitF\<rparr>)
      else if c = CHR ''n'' then (scanBeginLiteral, s\<lparr>step := LitN\<rparr>)
      else if CHR ''1'' \<le> c \<and> c \<le> CHR ''9'' then (scanBeginLiteral, s\<lparr>step := Num1\<rparr>)
      else scan_err s)"

definition stateBeginValueOrEmpty :: "scanner \<Rightarrow> char \<Rightarrow> scan_code \<times> scanner" where [scan_defs]:
  "stateBeginValueOrEmpty s c =
     (if isSpace c then (scanSkipSpace, s)
      else if c = CHR '']'' then stateEndValue s c
      else stateBeginValue s c)"

definition stateBeginString :: "scanner \<Rightarrow> char \<Rightarrow> scan_code \<times> scanner" where [scan_defs]:
  "stateBeginString s c =
     (if isSpace c then (scanSkipSpace, s)
      else if c = CHR 0x22 then (scanBeginLiteral, s\<lparr>step := InString\<rparr>)
      else scan_err s)"

definition stateBeginStringOrEmpty :: "scanner \<Rightarrow> char \<Rightarrow> scan_code \<times> scanner" where [scan_defs]:
  "stateBeginStringOrEmpty s c =
     (if isSpace c then (scanSkipSpace, s)
      else if c = CHR ''}'' then stateEndValue (s\<lparr>parseState := parseObjectValue # tl (parseState s)\<rparr>) c
      else stateBeginString s c)"

definition stateInString :: "scanner \<Rightarrow> char \<Rightarrow> scan_code \<times> scanner" where [scan_defs]:
  "stateInString s c =
     (if c = CHR 0x22 then continue s EndValue
      else if c = CHR 0x5C then continue s InStringEsc
      else if c < CHR 0x20 then scan_err s
      else (scanContinue, s))"

definition stateInStringEsc :: "scanner \<Rightarrow> char \<Rightarrow> scan_code \<times> scanner" where [scan_defs]:
  "stateInStringEsc s c =
     (if c \<in> set [CHR ''b'', CHR ''f'', CHR ''n'', CHR ''r'', CHR ''t'', CHR 0x5C, CHR ''/'', CHR 0x22]
      then continue s InString
      else if c = CHR ''u'' then continue s InStringEscU
      else scan_err s)"

definition stateHex :: "scanner \<Rightarrow> step_fn \<Rightarrow> char \<Rightarrow> scan_code \<times> scanner" where [scan_defs]:
  \<comment> \<open>the common body of \<^verbatim>\<open>stateInStringEscU\<close>, \<^verbatim>\<open>U1\<close>, \<^verbatim>\<open>U12\<close> and \<^verbatim>\<open>U123\<close>\<close>
  "stateHex s next c = (if isHex c then continue s next else scan_err s)"

definition stateNum0 :: "scanner \<Rightarrow> char \<Rightarrow> scan_code \<times> scanner" where [scan_defs]:
  "stateNum0 s c =
     (if c = CHR ''.'' then continue s Dot
      else if c = CHR ''e'' \<or> c = CHR ''E'' then continue s Exp
      else stateEndValue s c)"

definition stateNum1 :: "scanner \<Rightarrow> char \<Rightarrow> scan_code \<times> scanner" where [scan_defs]:
  "stateNum1 s c = (if isDigit c then continue s Num1 else stateNum0 s c)"

definition stateNeg :: "scanner \<Rightarrow> char \<Rightarrow> scan_code \<times> scanner" where [scan_defs]:
  "stateNeg s c =
     (if c = CHR ''0'' then continue s Num0
      else if CHR ''1'' \<le> c \<and> c \<le> CHR ''9'' then continue s Num1
      else scan_err s)"

definition stateDot :: "scanner \<Rightarrow> char \<Rightarrow> scan_code \<times> scanner" where [scan_defs]:
  "stateDot s c = (if isDigit c then continue s Dot0 else scan_err s)"

definition stateDot0 :: "scanner \<Rightarrow> char \<Rightarrow> scan_code \<times> scanner" where [scan_defs]:
  "stateDot0 s c =
     (if isDigit c then (scanContinue, s)
      else if c = CHR ''e'' \<or> c = CHR ''E'' then continue s Exp
      else stateEndValue s c)"

definition stateESign :: "scanner \<Rightarrow> char \<Rightarrow> scan_code \<times> scanner" where [scan_defs]:
  "stateESign s c = (if isDigit c then continue s E0 else scan_err s)"

definition stateE :: "scanner \<Rightarrow> char \<Rightarrow> scan_code \<times> scanner" where [scan_defs]:
  "stateE s c = (if c = CHR ''+'' \<or> c = CHR ''-'' then continue s ESign else stateESign s c)"

definition stateE0 :: "scanner \<Rightarrow> char \<Rightarrow> scan_code \<times> scanner" where [scan_defs]:
  "stateE0 s c = (if isDigit c then (scanContinue, s) else stateEndValue s c)"

definition stateLit :: "scanner \<Rightarrow> char \<Rightarrow> step_fn \<Rightarrow> char \<Rightarrow> scan_code \<times> scanner" where [scan_defs]:
  \<comment> \<open>the common body of the states inside \<^verbatim>\<open>true\<close>, \<^verbatim>\<open>false\<close> and \<^verbatim>\<open>null\<close>\<close>
  "stateLit s expected next c = (if c = expected then continue s next else scan_err s)"

definition scanner_step :: "scanner \<Rightarrow> char \<Rightarrow> scan_code \<times> scanner" where [scan_defs]:
  \<comment> \<open>\<^verbatim>\<open>s.step(s, c)\<close>\<close>
  "scanner_step s c =
     (case step s of
        BeginValueOrEmpty \<Rightarrow> stateBeginValueOrEmpty s c
      | BeginValue \<Rightarrow> stateBeginValue s c
      | BeginStringOrEmpty \<Rightarrow> stateBeginStringOrEmpty s c
      | BeginString \<Rightarrow> stateBeginString s c
      | EndValue \<Rightarrow> stateEndValue s c
      | EndTop \<Rightarrow> stateEndTop s c
      | InString \<Rightarrow> stateInString s c
      | InStringEsc \<Rightarrow> stateInStringEsc s c
      | InStringEscU \<Rightarrow> stateHex s InStringEscU1 c
      | InStringEscU1 \<Rightarrow> stateHex s InStringEscU12 c
      | InStringEscU12 \<Rightarrow> stateHex s InStringEscU123 c
      | InStringEscU123 \<Rightarrow> stateHex s InString c
      | Neg \<Rightarrow> stateNeg s c
      | Num1 \<Rightarrow> stateNum1 s c
      | Num0 \<Rightarrow> stateNum0 s c
      | Dot \<Rightarrow> stateDot s c
      | Dot0 \<Rightarrow> stateDot0 s c
      | Exp \<Rightarrow> stateE s c
      | ESign \<Rightarrow> stateESign s c
      | E0 \<Rightarrow> stateE0 s c
      | LitT \<Rightarrow> stateLit s CHR ''r'' LitTr c
      | LitTr \<Rightarrow> stateLit s CHR ''u'' LitTru c
      | LitTru \<Rightarrow> stateLit s CHR ''e'' EndValue c
      | LitF \<Rightarrow> stateLit s CHR ''a'' LitFa c
      | LitFa \<Rightarrow> stateLit s CHR ''l'' LitFal c
      | LitFal \<Rightarrow> stateLit s CHR ''s'' LitFals c
      | LitFals \<Rightarrow> stateLit s CHR ''e'' EndValue c
      | LitN \<Rightarrow> stateLit s CHR ''u'' LitNu c
      | LitNu \<Rightarrow> stateLit s CHR ''l'' LitNul c
      | LitNul \<Rightarrow> stateLit s CHR ''l'' EndValue c
      | Error \<Rightarrow> (scanError, s))"

text \<open>
  \<^verbatim>\<open>json.Valid\<close>: the scanner run over the whole buffer (\<^verbatim>\<open>checkValid\<close>), then \<^verbatim>\<open>s.eof()\<close>.
\<close>

fun checkValid :: "scanner \<Rightarrow> string \<Rightarrow> scanner option" where
  "checkValid s [] = Some s"
| "checkValid s (c # cs) =
     (let r = scanner_step s c in if fst r = scanError then None else checkValid (snd r) cs)"

definition eof :: "scanner \<Rightarrow> scan_code" where
  "eof s =
     (if step s = Error then scanError
      else if endTop s then scanEnd
      else if endTop (snd (scanner_step s CHR '' '')) then scanEnd
      else scanError)"

definition Valid :: "string \<Rightarrow> bool" where
  "Valid data = (case checkValid reset data of None \<Rightarrow> False | Some s \<Rightarrow> eof s \<noteq> scanError)"

section \<open>Literals: \<^verbatim>\<open>unquote\<close> and number conversion\<close>

text \<open>
  \<^verbatim>\<open>utf8.EncodeRune\<close> and \<^verbatim>\<open>utf8.DecodeRune\<close> on code points as natural numbers
  (\<^verbatim>\<open>DecodeRune\<close> returns the rune and the number of bytes it took).
\<close>

definition RuneError :: nat where
  "RuneError = 0xFFFD"

definition EncodeRune :: "nat \<Rightarrow> string" where
  "EncodeRune r =
     (if r \<le> 0x7F then [char_of r]
      else if r \<le> 0x7FF then [char_of (0xC0 + r div 64), char_of (0x80 + r mod 64)]
      else if r > 0x10FFFF \<or> (0xD800 \<le> r \<and> r \<le> 0xDFFF) then [CHR 0xEF, CHR 0xBF, CHR 0xBD]
      else if r \<le> 0xFFFF then
        [char_of (0xE0 + r div 4096), char_of (0x80 + r div 64 mod 64), char_of (0x80 + r mod 64)]
      else
        [char_of (0xF0 + r div 262144), char_of (0x80 + r div 4096 mod 64),
         char_of (0x80 + r div 64 mod 64), char_of (0x80 + r mod 64)])"

definition continuation :: "nat \<Rightarrow> bool" where
  "continuation b = (0x80 \<le> b \<and> b \<le> 0xBF)"

definition DecodeRune :: "string \<Rightarrow> nat \<times> nat" where
  "DecodeRune p =
     (case p of
        [] \<Rightarrow> (RuneError, 0)
      | p0 # _ \<Rightarrow>
          let b0 = (of_char p0 :: nat) in
          if b0 < 0x80 then (b0, 1)
          else if b0 < 0xC2 \<or> 0xF4 < b0 then (RuneError, 1)
          else
            let sz = (if b0 < 0xE0 then 2 else if b0 < 0xF0 then 3 else 4 :: nat);
                lo = (if b0 = 0xE0 then 0xA0 else if b0 = 0xF0 then 0x90 else 0x80 :: nat);
                hi = (if b0 = 0xED then 0x9F else if b0 = 0xF4 then 0x8F else 0xBF :: nat)
            in if length p < sz then (RuneError, 1)
               else
                 let b1 = (of_char (p ! 1) :: nat) in
                 if b1 < lo \<or> hi < b1 then (RuneError, 1)
                 else if sz \<le> 2 then (b0 mod 32 * 64 + b1 mod 64, 2)
                 else
                   let b2 = (of_char (p ! 2) :: nat) in
                   if \<not> continuation b2 then (RuneError, 1)
                   else if sz \<le> 3 then (b0 mod 16 * 4096 + b1 mod 64 * 64 + b2 mod 64, 3)
                   else
                     let b3 = (of_char (p ! 3) :: nat) in
                     if \<not> continuation b3 then (RuneError, 1)
                     else (b0 mod 8 * 262144 + b1 mod 64 * 4096 + b2 mod 64 * 64 + b3 mod 64, 4))"

definition hexval :: "char \<Rightarrow> nat option" where
  "hexval c =
     (if isDigit c then Some (of_char c - 48)
      else if CHR ''a'' \<le> c \<and> c \<le> CHR ''f'' then Some (of_char c - 97 + 10)
      else if CHR ''A'' \<le> c \<and> c \<le> CHR ''F'' then Some (of_char c - 65 + 10)
      else None)"

definition getu4 :: "string \<Rightarrow> nat option" where
  \<comment> \<open>\<^verbatim>\<open>None\<close> is Go's \<open>-1\<close>\<close>
  "getu4 s =
     (if length s < 6 \<or> s ! 0 \<noteq> CHR 0x5C \<or> s ! 1 \<noteq> CHR ''u'' then None
      else case (hexval (s ! 2), hexval (s ! 3), hexval (s ! 4), hexval (s ! 5)) of
             (Some a, Some b, Some c, Some d) \<Rightarrow> Some (((a * 16 + b) * 16 + c) * 16 + d)
           | _ \<Rightarrow> None)"

definition IsSurrogate :: "nat \<Rightarrow> bool" where
  "IsSurrogate r = (0xD800 \<le> r \<and> r < 0xE000)"

definition utf16_DecodeRune :: "nat \<Rightarrow> nat option \<Rightarrow> nat" where
  "utf16_DecodeRune r1 r2 =
     (case r2 of
        None \<Rightarrow> RuneError
      | Some r2 \<Rightarrow>
          if 0xD800 \<le> r1 \<and> r1 < 0xDC00 \<and> 0xDC00 \<le> r2 \<and> r2 < 0xE000
          then (r1 - 0xD800) * 1024 + (r2 - 0xDC00) + 0x10000
          else RuneError)"

definition emit :: "string \<Rightarrow> string option \<Rightarrow> string option" where
  "emit out r = map_option ((@) out) r"

text \<open>
  \<^verbatim>\<open>unquoteBytes\<close>: the second loop of the Go function, run on the bytes between the quotes.
  (The first loop of the Go function only detects the inputs that this loop copies unchanged.)
  \<^verbatim>\<open>None\<close> is \<^verbatim>\<open>ok = false\<close>.
\<close>

fun unquote_loop :: "string \<Rightarrow> string option" where
  "unquote_loop [] = Some []"
| "unquote_loop (c # cs) =
     (if c = CHR 0x5C then
        (case cs of
           [] \<Rightarrow> None
         | e # es \<Rightarrow>
             if e = CHR 0x22 \<or> e = CHR 0x5C \<or> e = CHR ''/'' \<or> e = CHR 0x27 then emit [e] (unquote_loop es)
             else if e = CHR ''b'' then emit [CHR 0x08] (unquote_loop es)
             else if e = CHR ''f'' then emit [CHR 0x0C] (unquote_loop es)
             else if e = CHR ''n'' then emit [CHR 0x0A] (unquote_loop es)
             else if e = CHR ''r'' then emit [CHR 0x0D] (unquote_loop es)
             else if e = CHR ''t'' then emit [CHR 0x09] (unquote_loop es)
             else if e = CHR ''u'' then
               (case getu4 (c # cs) of
                  None \<Rightarrow> None
                | Some rr \<Rightarrow>
                    if IsSurrogate rr then
                      (let dec = utf16_DecodeRune rr (getu4 (drop 5 cs))
                       in if dec \<noteq> RuneError then emit (EncodeRune dec) (unquote_loop (drop 11 cs))
                          else emit (EncodeRune RuneError) (unquote_loop (drop 5 cs)))
                    else emit (EncodeRune rr) (unquote_loop (drop 5 cs)))
             else None)
      else if c = CHR 0x22 \<or> c < CHR 0x20 then None
      else if c < CHR 0x80 then emit [c] (unquote_loop cs)
      else emit (EncodeRune (fst (DecodeRune (c # cs))))
             (unquote_loop (drop (snd (DecodeRune (c # cs)) - 1) cs)))"

definition unquote :: "string \<Rightarrow> string option" where
  "unquote s =
     (if length s < 2 \<or> hd s \<noteq> CHR 0x22 \<or> last s \<noteq> CHR 0x22 then None
      else unquote_loop (butlast (tl s)))"

text \<open>
  \<^verbatim>\<open>convertNumber\<close> calls \<^verbatim>\<open>strconv.ParseFloat(s, 64)\<close> and fails when the literal is out of
  the range of \<^verbatim>\<open>float64\<close>, that is when it rounds (to nearest, ties to even) beyond the
  largest finite value: when its magnitude is at least \<open>2^1024 - 2^970\<close>. The literal has
  passed the scanner, so it is \<^verbatim>\<open>-?digits(.digits)?([eE][+-]?digits)?\<close>; the test is
  made on integers. Only whether the conversion fails is modelled, not the value. (\<^verbatim>\<open>strconv\<close>
  keeps 800 digits of a literal and stops accumulating an exponent beyond 10000; the test agrees
  with it on the literals within these limits.)
\<close>

definition digits_value :: "string \<Rightarrow> nat" where
  "digits_value ds = foldl (\<lambda>n d. 10 * n + (of_char d - 48)) 0 ds"

definition float64_limit :: nat where
  "float64_limit = 2 ^ 1024 - 2 ^ 970"

definition float64_overflow :: "string \<Rightarrow> bool" where
  "float64_overflow lit =
     (let s1 = (if lit \<noteq> [] \<and> hd lit = CHR ''-'' then tl lit else lit);
          ip = takeWhile isDigit s1;
          r1 = dropWhile isDigit s1;
          fp = (if r1 \<noteq> [] \<and> hd r1 = CHR ''.'' then takeWhile isDigit (tl r1) else []);
          r2 = (if r1 \<noteq> [] \<and> hd r1 = CHR ''.'' then dropWhile isDigit (tl r1) else r1);
          ex = (if r2 \<noteq> [] \<and> (hd r2 = CHR ''e'' \<or> hd r2 = CHR ''E'') then
                  (let r3 = tl r2
                   in if r3 \<noteq> [] \<and> hd r3 = CHR ''-'' then - int (digits_value (tl r3))
                      else if r3 \<noteq> [] \<and> hd r3 = CHR ''+'' then int (digits_value (tl r3))
                      else int (digits_value r3))
                else 0);
          mant = digits_value (ip @ fp);
          e10 = ex - int (length fp)
      in mant \<noteq> 0 \<and>
         (if 0 \<le> e10 then float64_limit \<le> mant * 10 ^ nat e10
          else float64_limit * 10 ^ nat (- e10) \<le> mant))"

text \<open>
  The number literals of a value that the scanner has accepted, in order. It stands for the
  second scan that \<^verbatim>\<open>d.unmarshal\<close> makes over the value, which calls \<^verbatim>\<open>convertNumber\<close> on each.
\<close>

datatype lex_mode = Plain | InStr | InStrEsc | InNum string

fun number_literals :: "lex_mode \<Rightarrow> string \<Rightarrow> string list" where
  "number_literals (InNum acc) [] = [rev acc]"
| "number_literals _ [] = []"
| "number_literals Plain (c # cs) =
     (if c = CHR 0x22 then number_literals InStr cs
      else if c = CHR ''-'' \<or> isDigit c then number_literals (InNum [c]) cs
      else number_literals Plain cs)"
| "number_literals InStr (c # cs) =
     (if c = CHR 0x22 then number_literals Plain cs
      else if c = CHR 0x5C then number_literals InStrEsc cs
      else number_literals InStr cs)"
| "number_literals InStrEsc (c # cs) = number_literals InStr cs"
| "number_literals (InNum acc) (c # cs) =
     (if isDigit c \<or> c = CHR ''.'' \<or> c = CHR ''e'' \<or> c = CHR ''E'' \<or> c = CHR ''+'' \<or> c = CHR ''-''
      then number_literals (InNum (c # acc)) cs
      else rev acc # (if c = CHR 0x22 then number_literals InStr cs else number_literals Plain cs))"

definition unmarshal_fails :: "string \<Rightarrow> bool" where
  \<comment> \<open>\<^verbatim>\<open>d.unmarshal(v)\<close> into an \<^verbatim>\<open>interface{}\<close> or a \<^verbatim>\<open>string\<close> returns an error\<close>
  "unmarshal_fails item = list_ex float64_overflow (number_literals Plain item)"

section \<open>The streaming decoder of \<^verbatim>\<open>encoding/json\<close>\<close>

text \<open>
  \<^verbatim>\<open>json.Decoder\<close> (\<^verbatim>\<open>stream.go\<close>), reading from a \<^verbatim>\<open>bytes.Buffer\<close> over the whole input. The
  Go decoder keeps a window \<^verbatim>\<open>buf\<close> of the input with a read position \<^verbatim>\<open>scanp\<close> and the count
  \<^verbatim>\<open>scanned\<close> of bytes already slid out of the window; what it computes depends only on the
  input not yet consumed and on \<^verbatim>\<open>scanned + scanp\<close>, which are the two fields \<open>unread\<close> and
  \<open>offset\<close> here. The token stack has its top first. The sticky field \<^verbatim>\<open>dec.err\<close> is left out:
  \<^verbatim>\<open>FindElement\<close> makes no decoder call after one has failed. The three operations that the
  specification asks of the codec, \<^verbatim>\<open>NextToken\<close>, \<^verbatim>\<open>DecodeValue\<close> and \<^verbatim>\<open>HasMoreAtLevel\<close>, are the calls
  \<^verbatim>\<open>dec.Token()\<close>, \<^verbatim>\<open>dec.Decode(&i)\<close> and \<^verbatim>\<open>dec.More()\<close> of the source, with \<^verbatim>\<open>dec.InputOffset()\<close> for
  the offsets.
\<close>

datatype token_state =
    tokenTopValue | tokenArrayStart | tokenArrayValue | tokenArrayComma
  | tokenObjectStart | tokenObjectKey | tokenObjectColon | tokenObjectValue | tokenObjectComma

record decoder =
  unread :: string
  offset :: nat
  tokenState :: token_state
  tokenStack :: "token_state list"

text \<open>
  A token: a delimiter, or a decoded scalar. A number's \<^verbatim>\<open>float64\<close> value is represented by its
  literal; \<^verbatim>\<open>FindElement\<close> only compares a token with a string.
\<close>

datatype token = Delim char | TString string | TNumber string | TBool bool | TNull

definition NewDecoder :: "string \<Rightarrow> decoder" where
  "NewDecoder input = \<lparr>unread = input, offset = 0, tokenState = tokenTopValue, tokenStack = []\<rparr>"

definition InputOffset :: "decoder \<Rightarrow> int" where
  "InputOffset dec = int (offset dec)"

definition advance :: "nat \<Rightarrow> decoder \<Rightarrow> decoder" where
  \<comment> \<open>\<^verbatim>\<open>dec.scanp += n\<close>\<close>
  "advance n dec = dec\<lparr>unread := drop n (unread dec), offset := offset dec + n\<rparr>"

definition peek :: "decoder \<Rightarrow> (char \<times> decoder) option" where
  \<comment> \<open>skips white space; \<^verbatim>\<open>None\<close> is the error \<^verbatim>\<open>io.EOF\<close> of the exhausted reader\<close>
  "peek dec =
     (case dropWhile isSpace (unread dec) of
        [] \<Rightarrow> None
      | c # cs \<Rightarrow>
          Some (c, dec\<lparr>unread := c # cs,
                       offset := offset dec + (length (unread dec) - length (c # cs))\<rparr>))"

definition nonSpace :: "string \<Rightarrow> bool" where
  "nonSpace b = list_ex (\<lambda>c. \<not> isSpace c) b"

text \<open>
  The loop of \<^verbatim>\<open>readValue\<close>: \<open>s\<close> is \<^verbatim>\<open>dec.scan\<close>, the second argument the input from \<^verbatim>\<open>scanp\<close>
  on, \<open>n\<close> is \<^verbatim>\<open>scanp - dec.scanp\<close>, and \<open>buf\<close> the input from \<^verbatim>\<open>dec.scanp\<close> on. The result is
  the length of the value's encoding.
\<close>

fun readValue_loop :: "scanner \<Rightarrow> string \<Rightarrow> nat \<Rightarrow> string \<Rightarrow> error + nat" where
  "readValue_loop s [] n buf =
     (if fst (scanner_step s CHR '' '') = scanEnd then Inr n
      else if nonSpace buf then Inl ErrUnexpectedEOF
      else Inl EOF)"
| "readValue_loop s (c # cs) n buf =
     (let r = scanner_step s c in
      if fst r = scanEnd then Inr n
      else if fst r = scanEndObject \<or> fst r = scanEndArray then
        (let r' = stateEndValue (snd r) CHR '' '' in
         if fst r' = scanEnd then Inr (n + 1) else readValue_loop (snd r') cs (n + 1) buf)
      else if fst r = scanError then Inl SyntaxError
      else readValue_loop (snd r) cs (n + 1) buf)"

definition readValue :: "decoder \<Rightarrow> error + nat" where
  "readValue dec = readValue_loop reset (unread dec) 0 (unread dec)"

definition tokenPrepareForDecode :: "decoder \<Rightarrow> decoder dres" where
  "tokenPrepareForDecode dec =
     (case tokenState dec of
        tokenArrayComma \<Rightarrow>
          (case peek dec of
             None \<Rightarrow> Fails EOF
           | Some (c, dec) \<Rightarrow>
               if c \<noteq> CHR '','' then Fails SyntaxError
               else Done ((advance 1 dec)\<lparr>tokenState := tokenArrayValue\<rparr>))
      | tokenObjectColon \<Rightarrow>
          (case peek dec of
             None \<Rightarrow> Fails EOF
           | Some (c, dec) \<Rightarrow>
               if c \<noteq> CHR '':'' then Fails SyntaxError
               else Done ((advance 1 dec)\<lparr>tokenState := tokenObjectValue\<rparr>))
      | _ \<Rightarrow> Done dec)"

definition tokenValueAllowed :: "decoder \<Rightarrow> bool" where
  "tokenValueAllowed dec =
     (tokenState dec = tokenTopValue \<or> tokenState dec = tokenArrayStart \<or>
      tokenState dec = tokenArrayValue \<or> tokenState dec = tokenObjectValue)"

definition tokenValueEnd :: "decoder \<Rightarrow> decoder" where
  "tokenValueEnd dec =
     (if tokenState dec = tokenArrayStart \<or> tokenState dec = tokenArrayValue
      then dec\<lparr>tokenState := tokenArrayComma\<rparr>
      else if tokenState dec = tokenObjectValue then dec\<lparr>tokenState := tokenObjectComma\<rparr>
      else dec)"

text \<open>
  \<^verbatim>\<open>dec.Decode(v)\<close> for \<open>v\<close> a pointer to an \<^verbatim>\<open>interface{}\<close> or to a \<^verbatim>\<open>string\<close>. The result holds
  the bytes of the value read (\<^verbatim>\<open>dec.buf[dec.scanp : dec.scanp+n]\<close>) in place of the decoded
  value: \<^verbatim>\<open>FindElement\<close> discards the value, and \<^verbatim>\<open>Token\<close> builds its token from these bytes.
\<close>

definition Decode :: "decoder \<Rightarrow> (string \<times> decoder) dres" where
  "Decode dec =
     (case tokenPrepareForDecode dec of
        Panics \<Rightarrow> Panics
      | Fails err \<Rightarrow> Fails err
      | Done dec \<Rightarrow>
          if \<not> tokenValueAllowed dec then Fails SyntaxError
          else (case readValue dec of
                  Inl err \<Rightarrow> Fails err
                | Inr n \<Rightarrow>
                    let item = take n (unread dec);
                        dec = advance n dec
                    in if unmarshal_fails item then Fails UnmarshalTypeError
                       else Done (item, tokenValueEnd dec)))"

definition literalInterface :: "string \<Rightarrow> token option" where
  \<comment> \<open>the value stored for a scalar literal; \<^verbatim>\<open>None\<close> is the decoder's \<^verbatim>\<open>panic(phasePanicMsg)\<close>\<close>
  "literalInterface item =
     (case item of
        [] \<Rightarrow> None
      | c # _ \<Rightarrow>
          if c = CHR ''n'' then Some TNull
          else if c = CHR ''t'' \<or> c = CHR ''f'' then Some (TBool (c = CHR ''t''))
          else if c = CHR 0x22 then map_option TString (unquote item)
          else if c \<noteq> CHR ''-'' \<and> (c < CHR ''0'' \<or> c > CHR ''9'') then None
          else Some (TNumber item))"

definition tokenError :: "decoder \<Rightarrow> char \<Rightarrow> (token \<times> decoder) dres" where
  "tokenError dec c = Fails SyntaxError"

definition popToken :: "decoder \<Rightarrow> char \<Rightarrow> (token \<times> decoder) dres" where
  \<comment> \<open>the common body of the cases \<^verbatim>\<open>']'\<close> and \<^verbatim>\<open>'}'\<close>: an empty stack would be an index out of range\<close>
  "popToken dec c =
     (case tokenStack dec of
        [] \<Rightarrow> Panics
      | st # stack \<Rightarrow>
          Done (Delim c, tokenValueEnd ((advance 1 dec)\<lparr>tokenState := st, tokenStack := stack\<rparr>)))"

definition pushToken :: "decoder \<Rightarrow> char \<Rightarrow> token_state \<Rightarrow> (token \<times> decoder) dres" where
  \<comment> \<open>the common body of the cases \<^verbatim>\<open>'['\<close> and \<^verbatim>\<open>'{'\<close>\<close>
  "pushToken dec c st =
     Done (Delim c, (advance 1 dec)\<lparr>tokenStack := tokenState dec # tokenStack dec, tokenState := st\<rparr>)"

function Token :: "decoder \<Rightarrow> (token \<times> decoder) dres" where
  "Token dec0 =
     (case peek dec0 of
        None \<Rightarrow> Fails EOF
      | Some (c, dec) \<Rightarrow>
          if c = CHR ''['' then
            (if \<not> tokenValueAllowed dec then tokenError dec c else pushToken dec c tokenArrayStart)
          else if c = CHR '']'' then
            (if tokenState dec \<noteq> tokenArrayStart \<and> tokenState dec \<noteq> tokenArrayComma
             then tokenError dec c else popToken dec c)
          else if c = CHR ''{'' then
            (if \<not> tokenValueAllowed dec then tokenError dec c else pushToken dec c tokenObjectStart)
          else if c = CHR ''}'' then
            (if tokenState dec \<noteq> tokenObjectStart \<and> tokenState dec \<noteq> tokenObjectComma
             then tokenError dec c else popToken dec c)
          else if c = CHR '':'' then
            (if tokenState dec \<noteq> tokenObjectColon then tokenError dec c
             else Token ((advance 1 dec)\<lparr>tokenState := tokenObjectValue\<rparr>))
          else if c = CHR '','' then
            (if tokenState dec = tokenArrayComma then Token ((advance 1 dec)\<lparr>tokenState := tokenArrayValue\<rparr>)
             else if tokenState dec = tokenObjectComma then Token ((advance 1 dec)\<lparr>tokenState := tokenObjectKey\<rparr>)
             else tokenError dec c)
          else if c = CHR 0x22 \<and> (tokenState dec = tokenObjectStart \<or> tokenState dec = tokenObjectKey) then
            (case Decode (dec\<lparr>tokenState := tokenTopValue\<rparr>) of
               Panics \<Rightarrow> Panics
             | Fails err \<Rightarrow> Fails err
             | Done (item, dec) \<Rightarrow>
                 (case unquote item of
                    None \<Rightarrow> Panics
                  | Some x \<Rightarrow> Done (TString x, dec\<lparr>tokenState := tokenObjectColon\<rparr>)))
          else if \<not> tokenValueAllowed dec then tokenError dec c
          else
            (case Decode dec of
               Panics \<Rightarrow> Panics
             | Fails err \<Rightarrow> Fails err
             | Done (item, dec) \<Rightarrow>
                 (case literalInterface item of
                    None \<Rightarrow> Panics
                  | Some x \<Rightarrow> Done (x, dec))))"
  by pat_completeness auto

lemma peek_unread:
  "peek dec = Some (c, dec') \<Longrightarrow> length (unread dec') \<le> length (unread dec) \<and> length (unread dec') - Suc 0 < length (unread dec)"
proof -
  assume "peek dec = Some (c, dec')"
  then obtain cs where d: "dropWhile isSpace (unread dec) = c # cs" and u: "unread dec' = c # cs"
    by (auto simp: peek_def split: list.splits)
  have "length (dropWhile isSpace (unread dec)) \<le> length (unread dec)"
    by (rule length_dropWhile_le)
  with d u show ?thesis by simp
qed

termination Token
proof (relation "measure (\<lambda>dec. length (unread dec))")
  show "wf (measure (\<lambda>dec. length (unread dec)))" by simp
qed (auto simp: advance_def dest!: peek_unread)

declare Token.simps [simp del]

definition More :: "decoder \<Rightarrow> bool" where
  \<comment> \<open>\<^verbatim>\<open>More\<close> also moves the decoder past white space; \<^verbatim>\<open>FindElement\<close> never uses the decoder again\<close>
  "More dec = (case peek dec of None \<Rightarrow> False | Some (c, _) \<Rightarrow> c \<noteq> CHR '']'' \<and> c \<noteq> CHR ''}'')"

text \<open>Every successful decoder call consumes input and keeps the count of consumed bytes right.\<close>

definition input_size :: "decoder \<Rightarrow> nat" where
  "input_size dec = offset dec + length (unread dec)"

lemma input_size_update [simp]:
  "input_size (dec\<lparr>tokenState := st\<rparr>) = input_size dec"
  "input_size (dec\<lparr>tokenStack := stk\<rparr>) = input_size dec"
  by (simp_all add: input_size_def)

lemma peek_size:
  "peek dec = Some (c, dec') \<Longrightarrow> input_size dec' = input_size dec \<and> unread dec' \<noteq> [] \<and>
     length (unread dec') \<le> length (unread dec) \<and> tokenState dec' = tokenState dec"
proof -
  assume "peek dec = Some (c, dec')"
  then obtain cs where d: "dropWhile isSpace (unread dec) = c # cs"
    and u: "dec' = dec\<lparr>unread := c # cs, offset := offset dec + (length (unread dec) - length (c # cs))\<rparr>"
    by (auto simp: peek_def split: list.splits)
  have "length (dropWhile isSpace (unread dec)) \<le> length (unread dec)"
    by (rule length_dropWhile_le)
  with d u show ?thesis by (simp add: input_size_def)
qed

lemma advance_one:
  "unread dec \<noteq> [] \<Longrightarrow> input_size (advance (Suc 0) dec) = input_size dec \<and>
     length (unread (advance (Suc 0) dec)) < length (unread dec)"
  by (cases "unread dec") (simp_all add: advance_def input_size_def)

lemma peek_advance:
  assumes "peek dec = Some (c, dec')"
  shows "input_size (advance (Suc 0) dec') = input_size dec \<and>
     length (unread (advance (Suc 0) dec')) < length (unread dec)"
  using peek_size [OF assms] advance_one [of dec'] by simp

lemma readValue_loop_bound:
  "readValue_loop s cs n buf = Inr m \<Longrightarrow> n \<le> m \<and> m \<le> n + length cs"
proof (induction cs arbitrary: s n)
  case Nil
  then show ?case by (simp split: if_splits)
next
  case (Cons c cs)
  then show ?case by (fastforce simp: Let_def split: if_splits)
qed

lemma stateBeginValue_not_end: "fst (stateBeginValue s c) \<noteq> scanEnd"
  by (simp add: stateBeginValue_def pushParseState_def scan_err_def Let_def)

lemma readValue_bound:
  assumes "readValue dec = Inr m"
  shows "1 \<le> m \<and> m \<le> length (unread dec)"
proof (cases "unread dec")
  case Nil
  with assms show ?thesis
    using stateBeginValue_not_end [of reset "CHR '' ''"]
    by (simp add: readValue_def scanner_step_def reset_def split: if_splits)
next
  case (Cons c cs)
  have ne: "fst (scanner_step reset c) \<noteq> scanEnd"
    using stateBeginValue_not_end [of reset c] by (simp add: scanner_step_def reset_def)
  from assms Cons have "readValue_loop reset (c # cs) 0 (c # cs) = Inr m"
    by (simp add: readValue_def)
  with ne have "1 \<le> m \<and> m \<le> 1 + length cs"
    by (auto simp: Let_def split: if_splits dest!: readValue_loop_bound)
  with Cons show ?thesis by simp
qed

lemma tokenPrepareForDecode_size:
  assumes "tokenPrepareForDecode dec = Done dec'"
  shows "input_size dec' = input_size dec \<and> length (unread dec') \<le> length (unread dec)"
proof -
  have "dec' = dec \<or> (\<exists>c d st. peek dec = Some (c, d) \<and> dec' = (advance (Suc 0) d)\<lparr>tokenState := st\<rparr>)"
    using assms
    by (auto simp: tokenPrepareForDecode_def split: token_state.splits option.splits if_splits)
  then show ?thesis
  proof
    assume "dec' = dec" then show ?thesis by simp
  next
    assume "\<exists>c d st. peek dec = Some (c, d) \<and> dec' = (advance (Suc 0) d)\<lparr>tokenState := st\<rparr>"
    then obtain c d st where p: "peek dec = Some (c, d)" and d: "dec' = (advance (Suc 0) d)\<lparr>tokenState := st\<rparr>"
      by blast
    from peek_advance [OF p] d show ?thesis by simp
  qed
qed

lemma tokenValueEnd_fields [simp]:
  "unread (tokenValueEnd dec) = unread dec" "offset (tokenValueEnd dec) = offset dec"
  "input_size (tokenValueEnd dec) = input_size dec"
  by (simp_all add: tokenValueEnd_def input_size_def)

lemma Decode_size:
  assumes "Decode dec = Done (item, dec')"
  shows "input_size dec' = input_size dec \<and> length (unread dec') < length (unread dec)"
proof -
  from assms obtain d1 n where p: "tokenPrepareForDecode dec = Done d1"
    and r: "readValue d1 = Inr n" and d: "dec' = tokenValueEnd (advance n d1)"
    by (auto simp: Decode_def Let_def split: dres.splits if_splits sum.splits)
  from readValue_bound [OF r] tokenPrepareForDecode_size [OF p] d
  show ?thesis by (auto simp: input_size_def advance_def)
qed

lemma Token_Done:
  assumes "Token dec0 = Done (t, dec')"
  shows "\<exists>c dec. peek dec0 = Some (c, dec) \<and>
     ((\<exists>st. dec' = (advance (Suc 0) dec)\<lparr>tokenStack := tokenState dec # tokenStack dec, tokenState := st\<rparr>)
      \<or> (\<exists>st stk. dec' = tokenValueEnd ((advance (Suc 0) dec)\<lparr>tokenState := st, tokenStack := stk\<rparr>))
      \<or> ((c = CHR '':'' \<or> c = CHR '','') \<and> (\<exists>st. Token ((advance 1 dec)\<lparr>tokenState := st\<rparr>) = Done (t, dec')))
      \<or> (\<exists>item d2. Decode (dec\<lparr>tokenState := tokenTopValue\<rparr>) = Done (item, d2) \<and> dec' = d2\<lparr>tokenState := tokenObjectColon\<rparr>)
      \<or> (\<exists>item. Decode dec = Done (item, dec')))"
  using assms
  apply (simp only: Token.simps [of dec0])
  apply (simp split: option.splits prod.splits)
  apply (simp split: if_splits add: tokenError_def pushToken_def popToken_def split: list.splits dres.splits option.splits)
                apply (blast | auto split: prod.splits option.splits)+
  done

lemma Token_size:
  "Token dec = Done (t, dec') \<Longrightarrow>
     input_size dec' = input_size dec \<and> length (unread dec') < length (unread dec)"
proof (induction "length (unread dec)" arbitrary: dec rule: less_induct)
  case less
  from Token_Done [OF less.prems] obtain c d where p: "peek dec = Some (c, d)"
    and alt: "(\<exists>st. dec' = (advance (Suc 0) d)\<lparr>tokenStack := tokenState d # tokenStack d, tokenState := st\<rparr>)
      \<or> (\<exists>st stk. dec' = tokenValueEnd ((advance (Suc 0) d)\<lparr>tokenState := st, tokenStack := stk\<rparr>))
      \<or> ((c = CHR '':'' \<or> c = CHR '','') \<and> (\<exists>st. Token ((advance 1 d)\<lparr>tokenState := st\<rparr>) = Done (t, dec')))
      \<or> (\<exists>item d2. Decode (d\<lparr>tokenState := tokenTopValue\<rparr>) = Done (item, d2) \<and> dec' = d2\<lparr>tokenState := tokenObjectColon\<rparr>)
      \<or> (\<exists>item. Decode d = Done (item, dec'))"
    by blast
  note pa = peek_advance [OF p]
  note ps = peek_size [OF p]
  from alt consider
      (push) st where "dec' = (advance (Suc 0) d)\<lparr>tokenStack := tokenState d # tokenStack d, tokenState := st\<rparr>"
    | (pop) st stk where "dec' = tokenValueEnd ((advance (Suc 0) d)\<lparr>tokenState := st, tokenStack := stk\<rparr>)"
    | (continue) st where "Token ((advance 1 d)\<lparr>tokenState := st\<rparr>) = Done (t, dec')"
    | (key) item d2 where "Decode (d\<lparr>tokenState := tokenTopValue\<rparr>) = Done (item, d2)" "dec' = d2\<lparr>tokenState := tokenObjectColon\<rparr>"
    | (val) item where "Decode d = Done (item, dec')"
    by blast
  then show ?case
  proof cases
    case push
    with pa show ?thesis by simp
  next
    case pop
    with pa show ?thesis by simp
  next
    case continue
    have "length (unread ((advance 1 d)\<lparr>tokenState := st\<rparr>)) < length (unread dec)"
      using pa by simp
    from less.hyps [OF this continue] pa show ?thesis by simp
  next
    case key
    from Decode_size [OF key(1)] ps key(2) show ?thesis by simp
  next
    case val
    from Decode_size [OF val] ps show ?thesis by simp
  qed
qed

section \<open>\<^verbatim>\<open>FindElement\<close> and \<^verbatim>\<open>DropElement\<close>\<close>

text \<open>
  Indexing \<^verbatim>\<open>extension[i]\<close> panics out of range, and so does the slice expression
  \<^verbatim>\<open>extension[lo:hi]\<close> unless \<^verbatim>\<open>0 <= lo <= hi <= cap(extension)\<close>. The capacity of a slice is
  taken to be its length; no bound that \<^verbatim>\<open>FindElement\<close> or \<^verbatim>\<open>DropElement\<close> computes lies beyond the
  length (lemmas \<open>skip_past_range\<close>, \<open>strip_back_range\<close> and \<open>FindElement_range\<close> below), so the
  capacity decides nothing.
\<close>

definition byte_at :: "string \<Rightarrow> int \<Rightarrow> char option" where
  "byte_at b i = (if 0 \<le> i \<and> i < int (length b) then Some (b ! nat i) else None)"

definition slice :: "string \<Rightarrow> int \<Rightarrow> int \<Rightarrow> string outcome" where
  "slice b lo hi =
     (if 0 \<le> lo \<and> lo \<le> hi \<and> hi \<le> int (length b)
      then Return (take (nat (hi - lo)) (drop (nat lo) b))
      else Panic)"

text \<open>
  The two forward loops of \<^verbatim>\<open>FindElement\<close> (the search for the comma after the element, lines
  49 to 56, and for the colon after the key, lines 68 to 75) have the same body up to the byte
  looked for: advance the index until the byte is found, and step past it.
\<close>

function skip_past :: "char \<Rightarrow> string \<Rightarrow> int \<Rightarrow> int outcome" where
  "skip_past d extension i =
     (case byte_at extension i of
        None \<Rightarrow> Panic
      | Some c \<Rightarrow> if c = d then Return (i + 1) else skip_past d extension (i + 1))"
  by pat_completeness auto

termination skip_past
  by (relation "measure (\<lambda>(d, extension, i). nat (int (length extension) - i))")
     (auto simp: byte_at_def split: if_splits)

declare skip_past.simps [simp del]

text \<open>The backward loop of lines 76 to 92.\<close>

function strip_back :: "string \<Rightarrow> int \<Rightarrow> int outcome" where
  "strip_back extension endIndex0 =
     (let endIndex = (if endIndex0 = int (length extension) then endIndex0 - 1 else endIndex0)
      in case byte_at extension endIndex of
           None \<Rightarrow> Panic
         | Some c \<Rightarrow>
             if c = sqBracket \<or> c = closingCurlyBracket then Return endIndex
             else if c = comma then Return (endIndex - 1)
             else strip_back extension (endIndex - 1))"
  by pat_completeness auto

termination strip_back
  by (relation "measure (\<lambda>(extension, endIndex). nat (endIndex + 1))")
     (auto simp: byte_at_def split: if_splits)

declare strip_back.simps [simp del]

text \<open>
  The token loop of lines 28 to 63. \<^verbatim>\<open>Inl err\<close> is the early \<^verbatim>\<open>return false, -1, -1, err\<close>;
  \<^verbatim>\<open>Inr (found, startIndex, endIndex)\<close> are the variables when the loop is left by \<^verbatim>\<open>break\<close>
  (\<^verbatim>\<open>endIndex\<close> is still zero when nothing was found).
\<close>

function token_loop :: "string \<Rightarrow> string \<Rightarrow> decoder \<Rightarrow> int \<Rightarrow> (error + bool \<times> int \<times> int) outcome" where
  "token_loop extension elementName dec startIndex =
     (case Token dec of
        Panics \<Rightarrow> Panic
      | Fails err \<Rightarrow> if err = EOF then Return (Inr (False, startIndex, 0)) else Return (Inl err)
      | Done (token, dec) \<Rightarrow>
          if token = TString elementName then
            (case Decode dec of
               Panics \<Rightarrow> Panic
             | Fails err \<Rightarrow> Return (Inl err)
             | Done (i, dec) \<Rightarrow>
                 let endIndex = InputOffset dec in
                 if More dec then
                   (case byte_at extension startIndex of
                      None \<Rightarrow> Panic
                    | Some c \<Rightarrow>
                        let startIndex = (if c = comma then startIndex + 1 else startIndex)
                        in case skip_past comma extension endIndex of
                             Panic \<Rightarrow> Panic
                           | Return endIndex \<Rightarrow> Return (Inr (True, startIndex, endIndex)))
                 else Return (Inr (True, startIndex, endIndex)))
          else token_loop extension elementName dec (InputOffset dec))"
  by pat_completeness auto

termination token_loop
  by (relation "measure (\<lambda>(extension, elementName, dec, startIndex). length (unread dec))")
     (auto dest!: Token_size)

declare token_loop.simps [simp del]

fun FindElement :: "string \<Rightarrow> string list \<Rightarrow> (bool \<times> int \<times> int \<times> error option) outcome" where
  "FindElement extension [] = Panic"
| "FindElement extension (elementName # rest) =
     (case token_loop extension elementName (NewDecoder extension) 0 of
        Panic \<Rightarrow> Panic
      | Return (Inl err) \<Rightarrow> Return (False, - 1, - 1, Some err)
      | Return (Inr (found, startIndex, endIndex)) \<Rightarrow>
          if found then
            if rest = [] then Return (found, startIndex, endIndex, None)
            else
              (case skip_past colon extension startIndex of
                 Panic \<Rightarrow> Panic
               | Return startIndex \<Rightarrow>
                   (case strip_back extension endIndex of
                      Panic \<Rightarrow> Panic
                    | Return endIndex \<Rightarrow>
                        (case slice extension startIndex endIndex of
                           Panic \<Rightarrow> Panic
                         | Return window \<Rightarrow>
                             (case FindElement window rest of
                                Panic \<Rightarrow> Panic
                              | Return (found, startInd, endInd, err) \<Rightarrow>
                                  Return (found, startIndex + startInd, startIndex + endInd, err)))))
          else Return (found, startIndex, endIndex, None))"

text \<open>
  \<^verbatim>\<open>DropElement\<close> returns a slice and an error (\<^verbatim>\<open>None\<close> is \<^verbatim>\<open>nil\<close>). The \<^verbatim>\<open>append\<close> of line 113
  writes into the caller's array, since the result is no longer than the array;
  \<open>DropElement_array\<close> is the content of the caller's array when \<^verbatim>\<open>DropElement\<close> returns.
\<close>

definition DropElement :: "string \<Rightarrow> string list \<Rightarrow> (string option \<times> error option) outcome" where
  "DropElement extension elementNames =
     (case FindElement extension elementNames of
        Panic \<Rightarrow> Panic
      | Return (found, startIndex, endIndex, err) \<Rightarrow>
          (case err of
             Some e \<Rightarrow> Return (None, Some e)
           | None \<Rightarrow>
               if found then
                 (case slice extension 0 startIndex of
                    Panic \<Rightarrow> Panic
                  | Return front \<Rightarrow>
                      (case slice extension endIndex (int (length extension)) of
                         Panic \<Rightarrow> Panic
                       | Return back \<Rightarrow> Return (Some (front @ back), None)))
               else Return (Some extension, None)))"

definition append_array :: "string \<Rightarrow> string \<Rightarrow> string \<Rightarrow> string" where
  \<comment> \<open>the array \<open>arr\<close> after \<^verbatim>\<open>append(front, back...)\<close>, where \<open>front\<close> is a slice of \<open>arr\<close> from index 0\<close>
  "append_array arr front back =
     (if length front + length back \<le> length arr
      then front @ back @ drop (length front + length back) arr
      else arr)"

definition DropElement_array :: "string \<Rightarrow> string list \<Rightarrow> string outcome" where
  "DropElement_array extension elementNames =
     (case FindElement extension elementNames of
        Panic \<Rightarrow> Panic
      | Return (found, startIndex, endIndex, err) \<Rightarrow>
          (case err of
             Some e \<Rightarrow> Return extension
           | None \<Rightarrow>
               if found then
                 (case slice extension 0 startIndex of
                    Panic \<Rightarrow> Panic
                  | Return front \<Rightarrow>
                      (case slice extension endIndex (int (length extension)) of
                         Panic \<Rightarrow> Panic
                       | Return back \<Rightarrow> Return (append_array extension front back)))
               else Return extension))"

text \<open>
  The whole token stream of a decoder: the tokens up to the first call of \<^verbatim>\<open>Token\<close> that does not
  return one, and the error of that call (\<^verbatim>\<open>EOF\<close> at the end of the input; \<^verbatim>\<open>None\<close> for a panic).
\<close>

function Tokens :: "decoder \<Rightarrow> token list \<times> error option" where
  "Tokens dec =
     (case Token dec of
        Panics \<Rightarrow> ([], None)
      | Fails err \<Rightarrow> ([], Some err)
      | Done (token, dec) \<Rightarrow> (token # fst (Tokens dec), snd (Tokens dec)))"
  by pat_completeness auto

termination Tokens
  by (relation "measure (\<lambda>dec. length (unread dec))") (auto dest!: Token_size)

declare Tokens.simps [simp del]

definition tokenizes :: "string \<Rightarrow> bool" where
  \<comment> \<open>the tokenizer reads the buffer to its end without an error\<close>
  "tokenizes b = (snd (Tokens (NewDecoder b)) = Some EOF)"

text \<open>
  What the tokenizer or the value decoder reports to \<^verbatim>\<open>FindElement\<close> while it looks for
  \<open>elementName\<close>: the first error, other than the end of the input, of the calls of \<^verbatim>\<open>Token\<close> up
  to the first token equal to the name and of the call of \<^verbatim>\<open>Decode\<close> on the value after it.
\<close>

function reported_error :: "string \<Rightarrow> decoder \<Rightarrow> error option" where
  "reported_error elementName dec =
     (case Token dec of
        Panics \<Rightarrow> None
      | Fails err \<Rightarrow> if err = EOF then None else Some err
      | Done (token, dec) \<Rightarrow>
          if token = TString elementName then
            (case Decode dec of Fails err \<Rightarrow> Some err | _ \<Rightarrow> None)
          else reported_error elementName dec)"
  by pat_completeness auto

termination reported_error
  by (relation "measure (\<lambda>(elementName, dec). length (unread dec))") (auto dest!: Token_size)

declare reported_error.simps [simp del]

section \<open>Offsets stay inside the buffer\<close>

lemma Token_offset:
  assumes "Token dec = Done (t, dec')"
  shows "input_size dec' = input_size dec \<and> offset dec < offset dec'"
  using Token_size [OF assms] by (simp add: input_size_def)

lemma Decode_offset:
  assumes "Decode dec = Done (item, dec')"
  shows "input_size dec' = input_size dec \<and> offset dec < offset dec'"
  using Decode_size [OF assms] by (simp add: input_size_def)

lemma skip_past_range:
  "skip_past d ext i = Return j \<Longrightarrow> 0 \<le> i \<and> i < j \<and> j \<le> int (length ext)"
proof (induction d ext i rule: skip_past.induct)
  case (1 d ext i)
  from "1.prems" obtain c where b: "byte_at ext i = Some c"
    by (simp only: skip_past.simps [of d ext i]) (auto split: option.splits)
  then have r: "0 \<le> i \<and> i < int (length ext)"
    by (simp add: byte_at_def split: if_splits)
  show ?case
  proof (cases "c = d")
    case True
    with "1.prems" b r show ?thesis
      by (simp only: skip_past.simps [of d ext i]) auto
  next
    case False
    with "1.prems" b have "skip_past d ext (i + 1) = Return j"
      by (simp only: skip_past.simps [of d ext i]) auto
    from "1.IH" [OF b False this] r show ?thesis by simp
  qed
qed

lemma strip_back_range:
  "strip_back ext e = Return e' \<Longrightarrow> - 1 \<le> e' \<and> e' \<le> e \<and> e' < int (length ext)"
proof (induction ext e rule: strip_back.induct)
  case (1 ext e0)
  define e where "e = (if e0 = int (length ext) then e0 - 1 else e0)"
  from "1.prems" obtain c where b: "byte_at ext e = Some c"
    by (simp only: strip_back.simps [of ext e0] Let_def e_def) (auto split: option.splits)
  then have r: "0 \<le> e \<and> e < int (length ext)"
    by (simp add: byte_at_def split: if_splits)
  have le: "e \<le> e0" by (simp add: e_def)
  show ?case
  proof (cases "c = sqBracket \<or> c = closingCurlyBracket")
    case True
    with "1.prems" b have "e' = e"
      by (simp only: strip_back.simps [of ext e0] Let_def e_def) auto
    with r le show ?thesis by simp
  next
    case nb: False
    show ?thesis
    proof (cases "c = comma")
      case True
      with nb "1.prems" b have "e' = e - 1"
        by (simp only: strip_back.simps [of ext e0] Let_def e_def) auto
      with r le show ?thesis by simp
    next
      case False
      with nb "1.prems" b have "strip_back ext (e - 1) = Return e'"
        by (simp only: strip_back.simps [of ext e0] Let_def e_def) auto
      from "1.IH" [OF e_def b nb False this] r le show ?thesis by simp
    qed
  qed
qed

lemma token_loop_range:
  "token_loop ext name dec start = Return (Inr (True, s, e)) \<Longrightarrow>
   input_size dec = length ext \<Longrightarrow> 0 \<le> start \<Longrightarrow> start \<le> InputOffset dec \<Longrightarrow>
   0 \<le> s \<and> s \<le> e \<and> e \<le> int (length ext)"
proof (induction ext name dec start rule: token_loop.induct)
  case (1 ext name dec start)
  note run = "1.prems"(1) [unfolded token_loop.simps [of ext name dec start]]
  from run obtain tok d1 where T: "Token dec = Done (tok, d1)"
    by (auto split: dres.splits if_splits)
  note o1 = Token_offset [OF T]
  show ?case
  proof (cases "tok = TString name")
    case False
    with run T have "token_loop ext name d1 (InputOffset d1) = Return (Inr (True, s, e))"
      by simp
    from "1.IH" [OF T refl False this] o1 "1.prems"(2) show ?thesis
      by (simp add: InputOffset_def)
  next
    case True
    with run T obtain i d2 where D: "Decode d1 = Done (i, d2)"
      by (auto split: dres.splits)
    note o2 = Decode_offset [OF D]
    have end_le: "InputOffset d2 \<le> int (length ext)"
      using o1 o2 "1.prems"(2) by (simp add: InputOffset_def input_size_def)
    have lt: "start < InputOffset d2 - 0 \<and> start + 1 \<le> InputOffset d2"
      using o1 o2 "1.prems"(4) by (simp add: InputOffset_def)
    show ?thesis
    proof (cases "More d2")
      case False
      with run T True D have "s = start \<and> e = InputOffset d2"
        by (simp add: Let_def)
      with "1.prems"(3) lt end_le show ?thesis by simp
    next
      case m: True
      with run T True D obtain c e2 where "byte_at ext start = Some c"
        and sk: "skip_past comma ext (InputOffset d2) = Return e2"
        and se: "s = (if c = comma then start + 1 else start)" "e = e2"
        by (auto simp: Let_def split: option.splits outcome.splits)
      from skip_past_range [OF sk] se lt "1.prems"(3) show ?thesis by auto
    qed
  qed
qed

lemma slice_Return:
  "slice b lo hi = Return w \<Longrightarrow> 0 \<le> lo \<and> lo \<le> hi \<and> hi \<le> int (length b) \<and> int (length w) = hi - lo"
  by (auto simp: slice_def split: if_splits)

lemma FindElement_range:
  "FindElement ext names = Return (True, s, e, err) \<Longrightarrow> 0 \<le> s \<and> s \<le> e \<and> e \<le> int (length ext)"
proof (induction ext names arbitrary: s e err rule: FindElement.induct)
  case (1 ext)
  then show ?case by simp
next
  case (2 ext name rest)
  from "2.prems" obtain s0 e0 where L: "token_loop ext name (NewDecoder ext) 0 = Return (Inr (True, s0, e0))"
    by (auto split: outcome.splits sum.splits prod.splits if_splits)
  have r0: "0 \<le> s0 \<and> s0 \<le> e0 \<and> e0 \<le> int (length ext)"
    by (rule token_loop_range [OF L]) (simp_all add: NewDecoder_def input_size_def InputOffset_def)
  show ?case
  proof (cases "rest = []")
    case True
    with "2.prems" L r0 show ?thesis by simp
  next
    case False
    with "2.prems" L obtain s1 e1 w si ei where
      c: "skip_past colon ext s0 = Return s1" and b: "strip_back ext e0 = Return e1"
      and sl: "slice ext s1 e1 = Return w"
      and F: "FindElement w rest = Return (True, si, ei, err)"
      and res: "s = s1 + si" "e = s1 + ei"
      by (auto split: outcome.splits prod.splits)
    have "0 \<le> si \<and> si \<le> ei \<and> ei \<le> int (length w)"
      using "2.IH" L False c b sl F by (auto simp del: FindElement.simps)
    with slice_Return [OF sl] res show ?thesis by simp
  qed
qed

section \<open>Absent segments and reported errors\<close>


lemma token_loop_reported:
  "reported_error name dec = Some err \<Longrightarrow> token_loop ext name dec start = Return (Inl err)"
proof (induction "length (unread dec)" arbitrary: dec start rule: less_induct)
  case less
  show ?case
  proof (cases "Token dec")
    case Panics
    with less.prems show ?thesis
      by (simp add: reported_error.simps [of name dec])
  next
    case (Fails e)
    with less.prems show ?thesis
      by (simp add: reported_error.simps [of name dec] token_loop.simps [of ext name dec start]
          split: if_splits)
  next
    case (Done x)
    obtain t d1 where x: "x = (t, d1)" by (cases x)
    with Done have T: "Token dec = Done (t, d1)" by simp
    show ?thesis
    proof (cases "t = TString name")
      case True
      with T less.prems show ?thesis
        by (simp add: reported_error.simps [of name dec] token_loop.simps [of ext name dec start]
            split: dres.splits)
    next
      case False
      with T less.prems have r: "reported_error name d1 = Some err"
        by (simp add: reported_error.simps [of name dec])
      from Token_size [OF T] have "length (unread d1) < length (unread dec)" by simp
      from less.hyps [OF this r, of "InputOffset d1"] T False show ?thesis
        by (simp add: token_loop.simps [of ext name dec start])
    qed
  qed
qed

lemma FindElement_error_not_found:
  "FindElement ext names = Return (found, s, e, Some err) \<Longrightarrow> \<not> found"
proof (induction ext names arbitrary: found s e rule: FindElement.induct)
  case (1 ext)
  then show ?case by simp
next
  case (2 ext name rest)
  show ?case
  proof (cases "token_loop ext name (NewDecoder ext) 0")
    case Panic
    with "2.prems" show ?thesis by simp
  next
    case (Return r)
    show ?thesis
    proof (cases r)
      case (Inl a)
      with Return "2.prems" show ?thesis by simp
    next
      case (Inr b)
      obtain f0 s0 e0 where b: "b = (f0, s0, e0)" by (cases b)
      show ?thesis
      proof (cases "f0 \<and> rest \<noteq> []")
        case False
        with Return Inr b "2.prems" show ?thesis by (auto split: if_splits)
      next
        case True
        with Return Inr b "2.prems" obtain s1 e1 w si ei where
          c: "skip_past colon ext s0 = Return s1" and sb: "strip_back ext e0 = Return e1"
          and sl: "slice ext s1 e1 = Return w"
          and F: "FindElement w rest = Return (found, si, ei, Some err)"
          by (auto split: outcome.splits prod.splits)
        from True have f0: "f0" and ne: "rest \<noteq> []" by simp_all
        from "2.IH" [OF Return Inr b [symmetric] _ f0 ne c sb sl F]
        show ?thesis by simp
      qed
    qed
  qed
qed

section \<open>The claims\<close>

text \<open>The equations that evaluate the model on a concrete buffer.\<close>

lemmas run_defs = scan_defs isSpace_def isDigit_def isHex_def Valid_def eof_def
  unquote_def emit_def getu4_def hexval_def IsSurrogate_def utf16_DecodeRune_def RuneError_def
  EncodeRune_def DecodeRune_def continuation_def unmarshal_fails_def float64_overflow_def
  float64_limit_def digits_value_def
  NewDecoder_def InputOffset_def advance_def peek_def nonSpace_def readValue_def
  tokenPrepareForDecode_def tokenValueAllowed_def tokenValueEnd_def Decode_def literalInterface_def
  tokenError_def popToken_def pushToken_def Token.simps More_def
  byte_at_def slice_def skip_past.simps strip_back.simps token_loop.simps
  DropElement_def append_array_def DropElement_array_def Tokens.simps tokenizes_def
  comma_def colon_def sqBracket_def closingCurlyBracket_def Let_def

text \<open>
  C1. For every buffer and every non-empty path: if \<^verbatim>\<open>FindElement\<close> returns \<^verbatim>\<open>found = true\<close> with
  the range from \<open>startIndex\<close> to \<open>endIndex\<close> and a nil error, then \<^verbatim>\<open>DropElement\<close> on the same
  buffer and path returns exactly \<^verbatim>\<open>buffer[:startIndex] ++ buffer[endIndex:]\<close>, the bytes outside
  the range in their order, with a nil error. (A path on which \<^verbatim>\<open>FindElement\<close> returns is not
  empty.)
\<close>

theorem DropElement_removes_range:
  assumes "FindElement buffer path = Return (True, startIndex, endIndex, None)"
  shows "DropElement buffer path =
           Return (Some (take (nat startIndex) buffer @ drop (nat endIndex) buffer), None)"
proof -
  from FindElement_range [OF assms]
  have r: "0 \<le> startIndex" "startIndex \<le> endIndex" "endIndex \<le> int (length buffer)"
    by simp_all
  then have front: "slice buffer 0 startIndex = Return (take (nat startIndex) buffer)"
    by (simp add: slice_def)
  from r have "nat (int (length buffer) - endIndex) = length buffer - nat endIndex"
    by linarith
  with r have rear: "slice buffer endIndex (int (length buffer)) = Return (drop (nat endIndex) buffer)"
    by (simp add: slice_def)
  from assms front rear show ?thesis
    by (simp add: DropElement_def)
qed

theorem DropElement_removes_range_witness:
  \<open>FindElement ''{"a":1,"b":2,"c":3}'' [''b''] = Return (True, 7, 13, None) \<and>
   DropElement ''{"a":1,"b":2,"c":3}'' [''b''] = Return (Some ''{"a":1,"c":3}'', None)\<close>
proof -
  have h: \<open>FindElement ''{"a":1,"b":2,"c":3}'' [''b''] = Return (True, 7, 13, None)\<close>
    by (simp add: run_defs)
  from DropElement_removes_range [OF h] h show ?thesis
    by simp
qed

text \<open>
  C7. For every buffer and every non-empty path: if \<^verbatim>\<open>FindElement\<close> returns \<^verbatim>\<open>found = true\<close> with a
  nil error, the returned offsets satisfy \<^verbatim>\<open>0 <= start <= end <= len(buffer)\<close>; in the multi-segment
  case they are the offsets of the narrowed window translated by the window's start.
\<close>

theorem FindElement_offsets_in_buffer:
  assumes "FindElement buffer path = Return (True, startIndex, endIndex, None)"
  shows "0 \<le> startIndex \<and> startIndex \<le> endIndex \<and> endIndex \<le> int (length buffer)"
  using assms by (rule FindElement_range)

theorem FindElement_offsets_in_buffer_witness:
  \<open>FindElement ''{"x":{"y":{"z":5}},"w":1}'' [''x'', ''y'', ''z''] = Return (True, 11, 16, None) \<and>
   (0::int) \<le> 11 \<and> (11::int) \<le> 16 \<and> 16 \<le> int (length ''{"x":{"y":{"z":5}},"w":1}'')\<close>
proof -
  have h: \<open>FindElement ''{"x":{"y":{"z":5}},"w":1}'' [''x'', ''y'', ''z''] = Return (True, 11, 16, None)\<close>
    by (simp add: run_defs)
  from FindElement_offsets_in_buffer [OF h] h show ?thesis
    by simp
qed

text \<open>
  C9. \<^verbatim>\<open>FindElement\<close> reads \<^verbatim>\<open>elementNames[0]\<close> first, without a guard: for every buffer, a call
  with no path segment panics (index out of range), and so does \<^verbatim>\<open>DropElement\<close>, which calls it
  first; neither returns a not-found result or an error.
\<close>

theorem empty_path_panics:
  "FindElement buffer [] = Panic \<and> DropElement buffer [] = Panic"
  by (simp add: DropElement_def)

text \<open>
  C3. On \<^verbatim>\<open>{"a":1,"b":2,"c":3}\<close>, \<^verbatim>\<open>DropElement\<close> with path \<^verbatim>\<open>["b"]\<close> returns \<^verbatim>\<open>{"a":1,"c":3}\<close>; on
  \<^verbatim>\<open>{"a":1,"b":2}\<close>, with path \<^verbatim>\<open>["a"]\<close> it returns \<^verbatim>\<open>{"b":2}\<close> and with path \<^verbatim>\<open>["b"]\<close> it returns
  \<^verbatim>\<open>{"a":1}\<close>; on \<^verbatim>\<open>{"a":1}\<close>, with path \<^verbatim>\<open>["a"]\<close> it returns \<^verbatim>\<open>{}\<close>; each time with a nil error.
\<close>

theorem DropElement_single_level:
  \<open>DropElement ''{"a":1,"b":2,"c":3}'' [''b''] = Return (Some ''{"a":1,"c":3}'', None) \<and>
   DropElement ''{"a":1,"b":2}'' [''a''] = Return (Some ''{"b":2}'', None) \<and>
   DropElement ''{"a":1,"b":2}'' [''b''] = Return (Some ''{"a":1}'', None) \<and>
   DropElement ''{"a":1}'' [''a''] = Return (Some ''{}'', None)\<close>
  by (simp add: run_defs)

text \<open>
  C4. On \<^verbatim>\<open>{"x":{"y":{"z":5}},"w":1}\<close> with the path \<^verbatim>\<open>["x","y","z"]\<close>, \<^verbatim>\<open>DropElement\<close> returns
  \<^verbatim>\<open>{"x":{"y":{}},"w":1}\<close> with a nil error: only the innermost member is removed.
\<close>

theorem DropElement_nested:
  \<open>DropElement ''{"x":{"y":{"z":5}},"w":1}'' [''x'', ''y'', ''z''] =
     Return (Some ''{"x":{"y":{}},"w":1}'', None)\<close>
  by (simp add: run_defs)



text \<open>
  C5, as the code has it. Whenever the tokenizer or the value decoder reports an error other
  than the end of the input while \<^verbatim>\<open>FindElement\<close> looks for the first segment, \<^verbatim>\<open>FindElement\<close>
  returns \<^verbatim>\<open>false, -1, -1\<close> and that error; and whenever \<^verbatim>\<open>FindElement\<close> returns an error (from any
  level of the path), \<^verbatim>\<open>found\<close> is false and \<^verbatim>\<open>DropElement\<close> returns a nil slice and that error, the
  caller's buffer unwritten. (The end of the input is not an error for the token loop, also
  inside an unclosed object, and input that follows the matched element is never read.)
\<close>

theorem reported_error_is_returned:
  "(reported_error name (NewDecoder buffer) = Some err \<longrightarrow>
      FindElement buffer (name # rest) = Return (False, - 1, - 1, Some err)) \<and>
   (FindElement buffer path = Return (found, startIndex, endIndex, Some err') \<longrightarrow>
      \<not> found \<and> DropElement buffer path = Return (None, Some err') \<and>
      DropElement_array buffer path = Return buffer)"
proof (intro conjI impI)
  assume "reported_error name (NewDecoder buffer) = Some err"
  then have "token_loop buffer name (NewDecoder buffer) 0 = Return (Inl err)"
    by (rule token_loop_reported)
  then show "FindElement buffer (name # rest) = Return (False, - 1, - 1, Some err)"
    by simp
next
  assume f: "FindElement buffer path = Return (found, startIndex, endIndex, Some err')"
  then show "\<not> found"
    by (rule FindElement_error_not_found)
  from f show "DropElement buffer path = Return (None, Some err')"
    by (simp add: DropElement_def)
  from f show "DropElement_array buffer path = Return buffer"
    by (simp add: DropElement_array_def)
qed

theorem reported_error_is_returned_witness:
  \<open>reported_error ''a'' (NewDecoder ''{"a":[1,,2]}'') = Some SyntaxError \<and>
   FindElement ''{"a":[1,,2]}'' [''a''] = Return (False, - 1, - 1, Some SyntaxError) \<and>
   DropElement ''{"a":[1,,2]}'' [''a''] = Return (None, Some SyntaxError) \<and>
   DropElement_array ''{"a":[1,,2]}'' [''a''] = Return ''{"a":[1,,2]}''\<close>
proof -
  have r: \<open>reported_error ''a'' (NewDecoder ''{"a":[1,,2]}'') = Some SyntaxError\<close>
    by (simp add: run_defs reported_error.simps)
  from reported_error_is_returned
    [of \<open>''a''\<close> \<open>''{"a":[1,,2]}''\<close> SyntaxError \<open>[]\<close> \<open>[''a'']\<close> False \<open>- 1\<close> \<open>- 1\<close> SyntaxError] r
  show ?thesis
    by simp
qed

text \<open>
  C5 as stated fails: the object \<^verbatim>\<open>{"a":1\<close> is truncated (\<^verbatim>\<open>json.Valid\<close> rejects it, and decoding it
  as one value reports an unexpected end of input), yet \<^verbatim>\<open>FindElement\<close> looking for \<^verbatim>\<open>"b"\<close> returns
  \<^verbatim>\<open>found = false\<close> with a nil error; and on \<^verbatim>\<open>{"a":1,,}\<close>, malformed after the element \<^verbatim>\<open>"a"\<close>, it
  returns \<^verbatim>\<open>found = true\<close> with a nil error.
\<close>

theorem truncated_object_not_reported:
  \<open>\<not> Valid ''{"a":1'' \<and>
   Decode (NewDecoder ''{"a":1'') = Fails ErrUnexpectedEOF \<and>
   FindElement ''{"a":1'' [''b''] = Return (False, 6, 0, None) \<and>
   \<not> Valid ''{"a":1,,}'' \<and>
   FindElement ''{"a":1,,}'' [''a''] = Return (True, 1, 7, None)\<close>
  by (simp add: run_defs)




text \<open>
  C2 at \<^verbatim>\<open>{"a":1 ,"b":2,"c":3}\<close> with the path \<^verbatim>\<open>["b"]\<close>. The buffer is valid JSON and the tokenizer
  reads it to its end. The byte at \<^verbatim>\<open>startIndex\<close> is the space before the comma, so the comma that
  precedes the element is not stepped over; the range from 6 to 14 holds that comma and the one
  after the element, and the result \<^verbatim>\<open>{"a":1"c":3}\<close> is rejected by \<^verbatim>\<open>json.Valid\<close> and by the
  tokenizer.
\<close>

theorem space_before_comma_result_invalid:
  \<open>Valid ''{"a":1 ,"b":2,"c":3}'' \<and>
   tokenizes ''{"a":1 ,"b":2,"c":3}'' \<and>
   FindElement ''{"a":1 ,"b":2,"c":3}'' [''b''] = Return (True, 6, 14, None) \<and>
   DropElement ''{"a":1 ,"b":2,"c":3}'' [''b''] = Return (Some ''{"a":1"c":3}'', None) \<and>
   \<not> Valid ''{"a":1"c":3}'' \<and>
   snd (Tokens (NewDecoder ''{"a":1"c":3}'')) = Some SyntaxError\<close>
  by (simp add: run_defs)

text \<open>
  C10 at \<^verbatim>\<open>{"a":1 }\<close> with the path \<^verbatim>\<open>["a","b"]\<close>. The buffer is valid JSON and the tokenizer reads it
  to its end. The token loop leaves \<^verbatim>\<open>endIndex = 6\<close>, the space after the value; the backward loop
  finds no bracket, brace or comma from there down to index 0 and reads index \<open>-1\<close>: a panic.
\<close>

theorem backward_scan_leaves_buffer:
  \<open>Valid ''{"a":1 }'' \<and>
   tokenizes ''{"a":1 }'' \<and>
   token_loop ''{"a":1 }'' ''a'' (NewDecoder ''{"a":1 }'') 0 = Return (Inr (True, 1, 6)) \<and>
   strip_back ''{"a":1 }'' 6 = Panic \<and>
   FindElement ''{"a":1 }'' [''a'', ''b''] = Panic\<close>
  by (simp add: run_defs)

end
